theory Spec2Isabelle
  imports Main
begin

section \<open>The fitness-function wrapper (class CustomFitness)\<close>

text \<open>
  The notebook \<^verbatim>\<open>assignment_2/nn_hiive.ipynb\<close> defines one class, \<^verbatim>\<open>CustomFitness\<close>,
  and a linear script around it. The class is modelled first.

  Exceptions are values. The only exception the class raises itself is the plain
  \<^verbatim>\<open>Exception\<close> of \<^verbatim>\<open>__init__\<close>; reading an attribute that was never assigned raises
  \<^verbatim>\<open>AttributeError\<close>, \<^verbatim>\<open>numpy.reshape\<close> raises \<^verbatim>\<open>ValueError\<close> when the sizes
  differ, and a dictionary raises \<^verbatim>\<open>KeyError\<close> at a missing key (the last two are used
  by the script, below).
\<close>

datatype error = Exception string | AttributeError string | ValueError string | KeyError string

text \<open>
  An instance is its attribute dictionary: an attribute is \<open>None\<close> until \<^verbatim>\<open>__init__\<close>
  assigns it. The inner function takes the state and the keyword arguments; its result
  type is arbitrary, so an inner function that may itself fail returns a sum.
\<close>

record ('s, 'kw, 'r) custom_fitness =
  fitness_fn :: "('s \<Rightarrow> 'kw \<Rightarrow> 'r) option"
  problem_type :: "string option"
  kwargs :: "'kw option"

text \<open>The object as \<^verbatim>\<open>object.__new__\<close> hands it to \<^verbatim>\<open>__init__\<close>: no attribute set.\<close>

definition new_object :: "('s, 'kw, 'r) custom_fitness" where
  "new_object = \<lparr>fitness_fn = None, problem_type = None, kwargs = None\<rparr>"

text \<open>
  \<^verbatim>\<open>def __init__(self, fitness_fn, problem_type='continuous', **kwargs)\<close>.
  The argument \<open>problem_type_arg\<close> is \<open>None\<close> when the caller leaves the parameter out,
  and the default of the signature is then taken. The result is the exception raised
  (if any) together with \<open>self\<close> as the method leaves it.
\<close>

definition CustomFitness_init ::
  "('s, 'kw, 'r) custom_fitness \<Rightarrow> ('s \<Rightarrow> 'kw \<Rightarrow> 'r) \<Rightarrow> string option \<Rightarrow> 'kw
     \<Rightarrow> error option \<times> ('s, 'kw, 'r) custom_fitness" where
  "CustomFitness_init self fitness_fn_arg problem_type_arg kwargs_arg =
     (let ptype = (case problem_type_arg of None \<Rightarrow> ''continuous'' | Some p \<Rightarrow> p) in
      if ptype \<notin> set [''discrete'', ''continuous'', ''tsp'', ''either'']
      then (Some (Exception ''problem_type does not exist.''), self)
      else (None, self\<lparr>fitness_fn := Some fitness_fn_arg\<rparr>
                      \<lparr>problem_type := Some ptype\<rparr>
                      \<lparr>kwargs := Some kwargs_arg\<rparr>))"

text \<open>
  The call \<^verbatim>\<open>CustomFitness(fitness_fn, problem_type, **kwargs)\<close>: a new object is
  initialised and returned, unless \<^verbatim>\<open>__init__\<close> raises, and then the caller gets the
  exception and no object.
\<close>

definition CustomFitness ::
  "('s \<Rightarrow> 'kw \<Rightarrow> 'r) \<Rightarrow> string option \<Rightarrow> 'kw \<Rightarrow> error + ('s, 'kw, 'r) custom_fitness" where
  "CustomFitness fitness_fn_arg problem_type_arg kwargs_arg =
     (case CustomFitness_init new_object fitness_fn_arg problem_type_arg kwargs_arg of
        (Some e, _) \<Rightarrow> Inl e
      | (None, self) \<Rightarrow> Inr self)"

text \<open>
  \<^verbatim>\<open>def evaluate(self, state): fitness = self.fitness_fn(state, **self.kwargs); return fitness\<close>.
  A method is a function from \<open>self\<close> and its arguments to the returned value (or the
  exception) and \<open>self\<close> after the call. The attribute \<^verbatim>\<open>fitness_fn\<close> is read before
  \<^verbatim>\<open>kwargs\<close>.
\<close>

definition evaluate ::
  "('s, 'kw, 'r) custom_fitness \<Rightarrow> 's \<Rightarrow> (error + 'r) \<times> ('s, 'kw, 'r) custom_fitness" where
  "evaluate self state =
     (case fitness_fn self of
        None \<Rightarrow> (Inl (AttributeError ''fitness_fn''), self)
      | Some f \<Rightarrow>
          (case kwargs self of
             None \<Rightarrow> (Inl (AttributeError ''kwargs''), self)
           | Some kw \<Rightarrow> (let fitness = f state kw in (Inr fitness, self))))"

text \<open>\<^verbatim>\<open>def get_prob_type(self): return self.problem_type\<close>.\<close>

definition get_prob_type ::
  "('s, 'kw, 'r) custom_fitness \<Rightarrow> (error + string) \<times> ('s, 'kw, 'r) custom_fitness" where
  "get_prob_type self =
     (case problem_type self of
        None \<Rightarrow> (Inl (AttributeError ''problem_type''), self)
      | Some p \<Rightarrow> (Inr p, self))"

text \<open>
  The class docstring documents the parameter as
  \<^verbatim>\<open>problem_type: string, default: 'either'\<close>.
\<close>

definition docstring_default :: string where
  "docstring_default = ''either''"

text \<open>
  The example of the class docstring:
  \<^verbatim>\<open>def cust_fn(state, c): return c*np.sum(state)\<close> with \<^verbatim>\<open>kwargs = {'c': 10}\<close>.
  The keyword arguments are a dictionary from names to values.
\<close>

definition cust_fn :: "int list \<Rightarrow> (string \<rightharpoonup> int) \<Rightarrow> int option" where
  "cust_fn state kw = (case kw ''c'' of None \<Rightarrow> None | Some c \<Rightarrow> Some (c * sum_list state))"

section \<open>The script: network, fitness function, optimisation problem, test loop\<close>

subsection \<open>Arrays\<close>

text \<open>
  A numpy array is its shape and its entries in row-major order. The state vector is a
  one-dimensional array, modelled as the list of its entries; the entry type is left
  open.
\<close>

record 'a ndarray =
  shape :: "nat list"
  data :: "'a list"

text \<open>\<^verbatim>\<open>np.prod(shape)\<close>: the number of entries of an array of that shape.\<close>

definition np_prod :: "nat list \<Rightarrow> nat" where
  "np_prod shp = prod_list shp"

text \<open>
  \<^verbatim>\<open>weights[lo:hi]\<close> with non-negative bounds: the entries at the indices \<open>lo \<le> i < hi\<close>
  that exist. A slice never raises; it is shorter than \<open>hi - lo\<close> when the vector ends
  before \<open>hi\<close>.
\<close>

definition slice :: "'a list \<Rightarrow> nat \<Rightarrow> nat \<Rightarrow> 'a list" where
  "slice xs lo hi = take (hi - lo) (drop lo xs)"

text \<open>\<^verbatim>\<open>a.reshape(shp)\<close> of a one-dimensional array: the sizes must agree.\<close>

definition reshape :: "'a list \<Rightarrow> nat list \<Rightarrow> error + 'a ndarray" where
  "reshape xs shp =
     (if length xs = np_prod shp then Inr \<lparr>shape = shp, data = xs\<rparr>
      else Inl (ValueError ''cannot reshape array''))"

subsection \<open>The network\<close>

text \<open>
  A dense layer with \<open>units\<close> outputs on an input of dimension \<open>d\<close> has a weight matrix
  of shape \<open>(d, units)\<close> and a bias vector of shape \<open>(units,)\<close>; these are the shapes of
  \<^verbatim>\<open>layer.get_weights()[0]\<close> and \<^verbatim>\<open>layer.get_weights()[1]\<close>. The field \<open>installed\<close> is
  \<open>None\<close> while the layer holds the values the library drew at construction, which the
  script reads the shapes of and nothing else, and holds the two arrays given to
  \<^verbatim>\<open>set_weights\<close> afterwards.
\<close>

record 'a dense =
  units :: nat
  activation :: string
  weights_shape :: "nat list"
  biases_shape :: "nat list"
  installed :: "('a ndarray \<times> 'a ndarray) option"

definition Dense :: "nat \<Rightarrow> nat \<Rightarrow> string \<Rightarrow> 'a dense" where
  "Dense n input_dim act =
     \<lparr>units = n, activation = act, weights_shape = [input_dim, n], biases_shape = [n],
      installed = None\<rparr>"

text \<open>\<^verbatim>\<open>layer.set_weights([layer_weights, layer_biases])\<close>: the shapes must be the layer's.\<close>

definition set_weights :: "'a dense \<Rightarrow> 'a ndarray \<Rightarrow> 'a ndarray \<Rightarrow> error + 'a dense" where
  "set_weights layer layer_weights layer_biases =
     (if shape layer_weights = weights_shape layer \<and> shape layer_biases = biases_shape layer
      then Inr (layer\<lparr>installed := Some (layer_weights, layer_biases)\<rparr>)
      else Inl (ValueError ''layer weight shape mismatch''))"

text \<open>
  The values the notebook gets from the data libraries: the two splits of the data set,
  and the second dimensions \<^verbatim>\<open>X_train.shape[1]\<close> and \<^verbatim>\<open>y_train.shape[1]\<close> (for the Iris
  data, 4 features and 3 one-hot classes).
\<close>

record ('x, 'y) notebook_data =
  X_train :: 'x
  y_train :: 'y
  X_test :: 'x
  y_test :: 'y
  X_train_shape1 :: nat
  y_train_shape1 :: nat

text \<open>
  \<^verbatim>\<open>build_model()\<close>: three dense layers added to a sequential model, which gives each
  later layer the units of the layer before it as its input dimension.
\<close>

definition build_model :: "('x, 'y) notebook_data \<Rightarrow> 'a dense list" where
  "build_model g =
     [Dense 10 (X_train_shape1 g) ''relu'',
      Dense 10 10 ''relu'',
      Dense (y_train_shape1 g) 10 ''softmax'']"

text \<open>\<^verbatim>\<open>model.compile(optimizer=Adam(), loss='categorical_crossentropy', metrics=['accuracy'])\<close>.\<close>

record 'a compiled_model =
  layers :: "'a dense list"
  optimizer :: string
  loss :: string
  metrics :: "string list"

definition compile :: "'a dense list \<Rightarrow> 'a compiled_model" where
  "compile ls =
     \<lparr>layers = ls, optimizer = ''Adam'', loss = ''categorical_crossentropy'',
      metrics = [''accuracy'']\<rparr>"

subsection \<open>The fitness function\<close>

text \<open>
  The loop \<^verbatim>\<open>for layer in model.layers\<close> of \<^verbatim>\<open>fitness_function\<close>, with the running index
  \<^verbatim>\<open>start\<close>. It returns the layers with their weights set and the final \<^verbatim>\<open>start\<close>, or
  the first exception.
\<close>

fun fitness_function_loop ::
  "'a list \<Rightarrow> 'a dense list \<Rightarrow> nat \<Rightarrow> error + ('a dense list \<times> nat)" where
  "fitness_function_loop weights [] start = Inr ([], start)"
| "fitness_function_loop weights (layer # rest) start =
     (let w_shape = weights_shape layer;
          b_shape = biases_shape layer
      in case reshape (slice weights start (start + np_prod w_shape)) w_shape of
           Inl e \<Rightarrow> Inl e
         | Inr layer_weights \<Rightarrow>
             (let start1 = start + np_prod w_shape
              in case reshape (slice weights start1 (start1 + np_prod b_shape)) b_shape of
                   Inl e \<Rightarrow> Inl e
                 | Inr layer_biases \<Rightarrow>
                     (let start2 = start1 + np_prod b_shape
                      in case set_weights layer layer_weights layer_biases of
                           Inl e \<Rightarrow> Inl e
                         | Inr layer' \<Rightarrow>
                             (case fitness_function_loop weights rest start2 of
                                Inl e \<Rightarrow> Inl e
                              | Inr (rest', stop) \<Rightarrow> Inr (layer' # rest', stop)))))"

text \<open>
  \<^verbatim>\<open>fitness_function(weights)\<close>. The library call \<^verbatim>\<open>model.evaluate(X, y, verbose=0)\<close> is the
  parameter \<open>keras_evaluate\<close>: it returns the pair of the compiled loss and the compiled
  metric of the model on the data.
\<close>

definition fitness_function ::
  "('a compiled_model \<Rightarrow> 'x \<Rightarrow> 'y \<Rightarrow> 'l \<times> 'c) \<Rightarrow> ('x, 'y) notebook_data \<Rightarrow> 'a list
     \<Rightarrow> error + 'l" where
  "fitness_function keras_evaluate g weights =
     (case fitness_function_loop weights (build_model g) 0 of
        Inl e \<Rightarrow> Inl e
      | Inr (ls, stop) \<Rightarrow>
          (let model = compile ls;
               (loss_value, accuracy) = keras_evaluate model (X_train g) (y_train g)
           in Inr loss_value))"

subsection \<open>The optimisation problem\<close>

text \<open>
  \<^verbatim>\<open>total_weights = sum(np.prod(layer.get_weights()[0].shape) +
  np.prod(layer.get_weights()[1].shape) for layer in model.layers)\<close> on a model from
  \<^verbatim>\<open>build_model()\<close>. The sum is \<open>n_params\<close>, over any list of layers; the count does
  not depend on the entries, so the model is taken at the entry type \<open>unit\<close>.
\<close>

definition n_params :: "'a dense list \<Rightarrow> nat" where
  "n_params model_layers =
     sum_list (map (\<lambda>layer. np_prod (weights_shape layer) + np_prod (biases_shape layer))
                   model_layers)"

definition total_weights :: "('x, 'y) notebook_data \<Rightarrow> nat" where
  "total_weights g = n_params (build_model g :: unit dense list)"

text \<open>
  \<^verbatim>\<open>fitness_function = CustomFitness(fitness_function)\<close> and
  \<^verbatim>\<open>problem = mlrose.ContinuousOpt(length=total_weights, fitness_fn=fitness_function,
  maximize=False)\<close>. The problem object of the library is the record of the arguments it
  is built from. The wrapper gets no problem type and no keyword arguments.
\<close>

record ('a, 'l) continuous_opt =
  opt_length :: nat
  opt_fitness_fn :: "('a list, unit, error + 'l) custom_fitness"
  opt_maximize :: bool

definition problem ::
  "('a compiled_model \<Rightarrow> 'x \<Rightarrow> 'y \<Rightarrow> 'l \<times> 'c) \<Rightarrow> ('x, 'y) notebook_data
     \<Rightarrow> error + ('a, 'l) continuous_opt" where
  "problem keras_evaluate g =
     (case CustomFitness (\<lambda>weights _. fitness_function keras_evaluate g weights) None () of
        Inl e \<Rightarrow> Inl e
      | Inr wrapped \<Rightarrow>
          Inr \<lparr>opt_length = total_weights g, opt_fitness_fn = wrapped, opt_maximize = False\<rparr>)"

subsection \<open>The results and the test loop\<close>

text \<open>
  Each optimiser of the library returns a best state, its fitness and a fitness curve;
  the script stores the first two under \<^verbatim>\<open>results[algo]["state"]\<close> and
  \<^verbatim>\<open>results[algo]["fitness"]\<close>. The three returned triples are parameters.
\<close>

record ('a, 'l) result =
  res_state :: "'a list"
  res_fitness :: 'l

definition results ::
  "'a list \<times> 'l \<times> 'v \<Rightarrow> 'a list \<times> 'l \<times> 'v \<Rightarrow> 'a list \<times> 'l \<times> 'v
     \<Rightarrow> (string \<rightharpoonup> ('a, 'l) result)" where
  "results rhc sa ga =
     (case rhc of (best_state_rhc, best_fitness_rhc, fitness_curve_rhc) \<Rightarrow>
      case sa of (best_state_sa, best_fitness_sa, fitness_curve_sa) \<Rightarrow>
      case ga of (best_state_ga, best_fitness_ga, fitness_curve_ga) \<Rightarrow>
        [''RHC'' \<mapsto> \<lparr>res_state = best_state_rhc, res_fitness = best_fitness_rhc\<rparr>,
         ''SA'' \<mapsto> \<lparr>res_state = best_state_sa, res_fitness = best_fitness_sa\<rparr>,
         ''GA'' \<mapsto> \<lparr>res_state = best_state_ga, res_fitness = best_fitness_ga\<rparr>])"

text \<open>The inner loop of the test cell, over the layers of a new model.\<close>

fun test_accuracies_loop ::
  "'a list \<Rightarrow> 'a dense list \<Rightarrow> nat \<Rightarrow> error + ('a dense list \<times> nat)" where
  "test_accuracies_loop st [] start = Inr ([], start)"
| "test_accuracies_loop st (layer # rest) start =
     (let w_shape = weights_shape layer;
          b_shape = biases_shape layer
      in case reshape (slice st start (start + np_prod w_shape)) w_shape of
           Inl e \<Rightarrow> Inl e
         | Inr layer_weights \<Rightarrow>
             (let start1 = start + np_prod w_shape
              in case reshape (slice st start1 (start1 + np_prod b_shape)) b_shape of
                   Inl e \<Rightarrow> Inl e
                 | Inr layer_biases \<Rightarrow>
                     (let start2 = start1 + np_prod b_shape
                      in case set_weights layer layer_weights layer_biases of
                           Inl e \<Rightarrow> Inl e
                         | Inr layer' \<Rightarrow>
                             (case test_accuracies_loop st rest start2 of
                                Inl e \<Rightarrow> Inl e
                              | Inr (rest', stop) \<Rightarrow> Inr (layer' # rest', stop)))))"

text \<open>
  The outer loop \<^verbatim>\<open>for algo in ["RHC", "SA", "GA"]\<close>. Its state is the dictionary
  \<^verbatim>\<open>test_accuracies\<close> and the lines printed so far. The format \<^verbatim>\<open>{accuracy:.2f}\<close> of a
  floating-point number is the parameter \<open>fmt\<close>.
\<close>

fun test_accuracies_run ::
  "('a compiled_model \<Rightarrow> 'x \<Rightarrow> 'y \<Rightarrow> 'l \<times> 'c) \<Rightarrow> ('c \<Rightarrow> string) \<Rightarrow> ('x, 'y) notebook_data
     \<Rightarrow> (string \<rightharpoonup> ('a, 'l) result) \<Rightarrow> string list \<Rightarrow> (string \<rightharpoonup> 'c) \<times> string list
     \<Rightarrow> error + ((string \<rightharpoonup> 'c) \<times> string list)" where
  "test_accuracies_run keras_evaluate fmt g res [] (test_accuracies, printed) =
     Inr (test_accuracies, printed)"
| "test_accuracies_run keras_evaluate fmt g res (algo # algos) (test_accuracies, printed) =
     (case res algo of
        None \<Rightarrow> Inl (KeyError algo)
      | Some r \<Rightarrow>
          (case test_accuracies_loop (res_state r) (build_model g) 0 of
             Inl e \<Rightarrow> Inl e
           | Inr (ls, stop) \<Rightarrow>
               (let model = compile ls;
                    (loss_value, accuracy) = keras_evaluate model (X_test g) (y_test g)
                in test_accuracies_run keras_evaluate fmt g res algos
                     (test_accuracies(algo \<mapsto> accuracy),
                      printed @ [''Test accuracy for '' @ algo @ '': '' @ fmt accuracy]))))"

text \<open>The test cell: the loop from the empty dictionary and no output.\<close>

definition test_accuracies ::
  "('a compiled_model \<Rightarrow> 'x \<Rightarrow> 'y \<Rightarrow> 'l \<times> 'c) \<Rightarrow> ('c \<Rightarrow> string) \<Rightarrow> ('x, 'y) notebook_data
     \<Rightarrow> (string \<rightharpoonup> ('a, 'l) result) \<Rightarrow> error + ((string \<rightharpoonup> 'c) \<times> string list)" where
  "test_accuracies keras_evaluate fmt g res =
     test_accuracies_run keras_evaluate fmt g res [''RHC'', ''SA'', ''GA''] (Map.empty, [])"

subsection \<open>Observations used to state the properties\<close>

text \<open>
  The entries a layer holds once \<^verbatim>\<open>set_weights\<close> has run, weights before biases, in
  row-major order; no entries before that.
\<close>

definition layer_params :: "'a dense \<Rightarrow> 'a list" where
  "layer_params layer =
     (case installed layer of None \<Rightarrow> [] | Some (w, b) \<Rightarrow> data w @ data b)"

text \<open>
  The layers with the slices of \<open>ws\<close> installed that begin at index \<open>start\<close>: what the
  loop functions are shown to compute when \<open>ws\<close> is long enough.
\<close>

fun sliced_layers :: "'a list \<Rightarrow> 'a dense list \<Rightarrow> nat \<Rightarrow> 'a dense list" where
  "sliced_layers ws [] start = []"
| "sliced_layers ws (layer # rest) start =
     layer\<lparr>installed := Some
         (\<lparr>shape = weights_shape layer,
           data = slice ws start (start + np_prod (weights_shape layer))\<rparr>,
          \<lparr>shape = biases_shape layer,
           data = slice ws (start + np_prod (weights_shape layer))
                    (start + np_prod (weights_shape layer) + np_prod (biases_shape layer))\<rparr>)\<rparr>
     # sliced_layers ws rest
         (start + np_prod (weights_shape layer) + np_prod (biases_shape layer))"

text \<open>The data of the notebook's run: the Iris data has 4 features and 3 classes.\<close>

definition iris :: "(string, string) notebook_data" where
  "iris = \<lparr>X_train = ''X_train'', y_train = ''y_train'', X_test = ''X_test'',
           y_test = ''y_test'', X_train_shape1 = 4, y_train_shape1 = 3\<rparr>"

text \<open>
  A stand-in for the library's evaluation, to run the script on: the loss is the number
  of entries installed in the model, the accuracy names the data it was computed on.
\<close>

definition count_evaluate :: "'a compiled_model \<Rightarrow> string \<Rightarrow> string \<Rightarrow> nat \<times> string" where
  "count_evaluate m X y = (length (concat (map layer_params (layers m))), X @ '','' @ y)"

section \<open>Auxiliary facts\<close>

subsection \<open>The wrapper\<close>

text \<open>What a successful construction assigns.\<close>

lemma CustomFitness_Inr:
  "CustomFitness f pt kw = Inr w \<Longrightarrow>
     fitness_fn w = Some f \<and> kwargs w = Some kw \<and>
     problem_type w = Some (case pt of None \<Rightarrow> ''continuous'' | Some p \<Rightarrow> p)"
  by (auto simp: CustomFitness_def CustomFitness_init_def new_object_def Let_def
           split: if_splits option.splits)

subsection \<open>Slices and parameter counts\<close>

text \<open>Adjacent slices join.\<close>

lemma slice_append:
  "a \<le> b \<Longrightarrow> b \<le> c \<Longrightarrow> slice xs a b @ slice xs b c = slice xs a c"
proof -
  assume ab: "a \<le> b" and bc: "b \<le> c"
  have "take (c - a) (drop a xs) = take ((b - a) + (c - b)) (drop a xs)"
    using ab bc by simp
  also have "\<dots> = take (b - a) (drop a xs) @ take (c - b) (drop (b - a) (drop a xs))"
    by (rule take_add)
  also have "drop (b - a) (drop a xs) = drop b xs"
    using ab by simp
  finally show ?thesis by (simp add: slice_def)
qed

lemma length_slice: "hi \<le> length xs \<Longrightarrow> length (slice xs lo hi) = hi - lo"
  by (auto simp: slice_def)

lemma n_params_append: "n_params (xs @ ys) = n_params xs + n_params ys"
  by (simp add: n_params_def)

lemma n_params_Nil: "n_params [] = 0"
  by (simp add: n_params_def)

lemma n_params_Cons:
  "n_params (l # ls) = np_prod (weights_shape l) + np_prod (biases_shape l) + n_params ls"
  by (simp add: n_params_def)

lemma n_params_take_Suc:
  "i < length model \<Longrightarrow>
     n_params (take (Suc i) model)
       = n_params (take i model) + np_prod (weights_shape (model ! i))
           + np_prod (biases_shape (model ! i))"
  by (simp add: n_params_def take_Suc_conv_app_nth)

lemma n_params_take_le: "n_params (take k model) \<le> n_params model"
proof -
  have "n_params (take k model @ drop k model)
          = n_params (take k model) + n_params (drop k model)"
    by (rule n_params_append)
  then show ?thesis by simp
qed

text \<open>The parameter count of the network, in the two dimensions of the data.\<close>

lemma n_params_build_model:
  "n_params (build_model g) = 10 * X_train_shape1 g + 120 + 11 * y_train_shape1 g"
  by (simp add: n_params_def build_model_def Dense_def np_prod_def)

lemma total_weights_eq: "n_params (build_model g) = total_weights g"
  by (simp add: total_weights_def n_params_build_model)

lemma iris_total: "total_weights iris = 193"
  by (simp add: total_weights_def n_params_build_model iris_def)

lemma iris_model:
  "(build_model iris :: 'a dense list)
     = [Dense 10 4 ''relu'', Dense 10 10 ''relu'', Dense 3 10 ''softmax'']"
  by (simp add: build_model_def iris_def)

subsection \<open>The reconstruction loop\<close>

text \<open>On a vector that is long enough the loop never raises, and installs the slices.\<close>

lemma loop_sliced:
  "start + n_params ls \<le> length ws \<Longrightarrow>
     fitness_function_loop ws ls start = Inr (sliced_layers ws ls start, start + n_params ls)"
proof (induction ls arbitrary: start)
  case Nil
  then show ?case by (simp add: n_params_Nil)
next
  case (Cons l ls)
  let ?w = "np_prod (weights_shape l)"
  let ?b = "np_prod (biases_shape l)"
  from Cons.prems have le: "start + ?w + ?b + n_params ls \<le> length ws"
    by (simp add: n_params_Cons add.assoc)
  have r1: "reshape (slice ws start (start + ?w)) (weights_shape l)
            = Inr \<lparr>shape = weights_shape l, data = slice ws start (start + ?w)\<rparr>"
    using le by (simp add: reshape_def length_slice)
  have r2: "reshape (slice ws (start + ?w) (start + ?w + ?b)) (biases_shape l)
            = Inr \<lparr>shape = biases_shape l, data = slice ws (start + ?w) (start + ?w + ?b)\<rparr>"
    using le by (simp add: reshape_def length_slice)
  from Cons.IH [OF le] r1 r2 show ?case
    by (simp add: Let_def set_weights_def n_params_Cons add.assoc)
qed

text \<open>The loop of the test cell is the loop of the fitness function.\<close>

lemma test_loop_eq:
  "test_accuracies_loop ws ls start = fitness_function_loop ws ls start"
  by (induction ls arbitrary: start) (simp_all add: Let_def split: sum.splits)

lemma length_sliced_layers: "length (sliced_layers ws ls start) = length ls"
  by (induction ls arbitrary: start) simp_all

text \<open>Laid end to end, the installed entries are one slice of the vector.\<close>

lemma concat_sliced_layers:
  "concat (map layer_params (sliced_layers ws ls start)) = slice ws start (start + n_params ls)"
proof (induction ls arbitrary: start)
  case Nil
  then show ?case by (simp add: n_params_Nil slice_def)
next
  case (Cons l ls)
  let ?w = "np_prod (weights_shape l)"
  let ?b = "np_prod (biases_shape l)"
  have "slice ws start (start + ?w) @ slice ws (start + ?w) (start + ?w + ?b)
          @ slice ws (start + ?w + ?b) (start + ?w + ?b + n_params ls)
        = slice ws start (start + ?w + ?b + n_params ls)"
    by (simp add: slice_append)
  with Cons.IH [of "start + ?w + ?b"] show ?case
    by (simp add: layer_params_def n_params_Cons add.assoc)
qed

text \<open>The bounds of the two slices of layer \<open>i\<close>.\<close>

lemma nth_sliced_layers:
  "i < length ls \<Longrightarrow>
     sliced_layers ws ls start ! i =
       (ls ! i)\<lparr>installed := Some
         (\<lparr>shape = weights_shape (ls ! i),
           data = slice ws (start + n_params (take i ls))
                    (start + n_params (take i ls) + np_prod (weights_shape (ls ! i)))\<rparr>,
          \<lparr>shape = biases_shape (ls ! i),
           data = slice ws (start + n_params (take i ls) + np_prod (weights_shape (ls ! i)))
                    (start + n_params (take (Suc i) ls))\<rparr>)\<rparr>"
proof (induction ls arbitrary: start i)
  case Nil
  then show ?case by simp
next
  case (Cons l ls)
  show ?case
  proof (cases i)
    case 0
    then show ?thesis by (simp add: n_params_Nil n_params_Cons add.assoc)
  next
    case (Suc j)
    with Cons.prems have "j < length ls" by simp
    from Cons.IH [OF this] Suc show ?thesis
      by (simp add: n_params_Cons add.assoc)
  qed
qed

lemma build_model_loop:
  "total_weights g \<le> length ws \<Longrightarrow>
     fitness_function_loop ws (build_model g) 0
       = Inr (sliced_layers ws (build_model g) 0, total_weights g)"
  using loop_sliced [of 0 "build_model g" ws] by (simp add: total_weights_eq)

lemma test_loop_build_model:
  "total_weights g \<le> length ws \<Longrightarrow>
     test_accuracies_loop ws (build_model g) 0
       = Inr (sliced_layers ws (build_model g) 0, total_weights g)"
  by (simp add: test_loop_eq build_model_loop)

lemma concat_build_model:
  "concat (map layer_params (sliced_layers ws (build_model g) 0)) = take (total_weights g) ws"
  using concat_sliced_layers [of ws "build_model g" 0] by (simp add: total_weights_eq slice_def)

text \<open>
  A vector with fewer entries than the network has parameters makes a \<^verbatim>\<open>reshape\<close> raise:
  the properties below are about vectors that hold all parameters.
\<close>

lemma loop_short:
  "start \<le> length ws \<Longrightarrow> length ws < start + n_params ls \<Longrightarrow>
     fitness_function_loop ws ls start = Inl (ValueError ''cannot reshape array'')"
proof (induction ls arbitrary: start)
  case Nil
  then show ?case by (simp add: n_params_Nil)
next
  case (Cons l ls)
  let ?w = "np_prod (weights_shape l)"
  let ?b = "np_prod (biases_shape l)"
  show ?case
  proof (cases "length ws < start + ?w")
    case True
    with Cons.prems(1) have "length (slice ws start (start + ?w)) \<noteq> ?w"
      by (simp add: slice_def)
    then have "reshape (slice ws start (start + ?w)) (weights_shape l)
                 = Inl (ValueError ''cannot reshape array'')"
      by (simp add: reshape_def)
    then show ?thesis by (simp add: Let_def)
  next
    case w: False
    then have r1: "reshape (slice ws start (start + ?w)) (weights_shape l)
            = Inr \<lparr>shape = weights_shape l, data = slice ws start (start + ?w)\<rparr>"
      by (simp add: reshape_def length_slice)
    show ?thesis
    proof (cases "length ws < start + ?w + ?b")
      case True
      with w have "length (slice ws (start + ?w) (start + ?w + ?b)) \<noteq> ?b"
        by (simp add: slice_def)
      then have "reshape (slice ws (start + ?w) (start + ?w + ?b)) (biases_shape l)
                   = Inl (ValueError ''cannot reshape array'')"
        by (simp add: reshape_def)
      with r1 show ?thesis by (simp add: Let_def)
    next
      case False
      then have r2: "reshape (slice ws (start + ?w) (start + ?w + ?b)) (biases_shape l)
            = Inr \<lparr>shape = biases_shape l, data = slice ws (start + ?w) (start + ?w + ?b)\<rparr>"
        by (simp add: reshape_def length_slice)
      from False Cons.prems(2) have "start + ?w + ?b \<le> length ws"
        and "length ws < start + ?w + ?b + n_params ls"
        by (simp_all add: n_params_Cons)
      from Cons.IH [OF this] r1 r2 show ?thesis
        by (simp add: Let_def set_weights_def)
    qed
  qed
qed

lemma fitness_function_short:
  "length ws < total_weights g \<Longrightarrow>
     fitness_function keras_evaluate g ws = Inl (ValueError ''cannot reshape array'')"
  using loop_short [of 0 ws "build_model g"]
  by (simp add: fitness_function_def total_weights_eq)

subsection \<open>The problem and the results\<close>

text \<open>The problem object the script builds.\<close>

lemma problem_eq:
  "problem ev g =
     Inr \<lparr>opt_length = total_weights g,
          opt_fitness_fn = \<lparr>fitness_fn = Some (\<lambda>weights _. fitness_function ev g weights),
                            problem_type = Some ''continuous'', kwargs = Some ()\<rparr>,
          opt_maximize = False\<rparr>"
  by (simp add: problem_def CustomFitness_def CustomFitness_init_def new_object_def)

text \<open>The three entries of the results dictionary.\<close>

lemma results_lookup:
  "results rhc sa ga ''RHC'' = Some \<lparr>res_state = fst rhc, res_fitness = fst (snd rhc)\<rparr>"
  "results rhc sa ga ''SA'' = Some \<lparr>res_state = fst sa, res_fitness = fst (snd sa)\<rparr>"
  "results rhc sa ga ''GA'' = Some \<lparr>res_state = fst ga, res_fitness = fst (snd ga)\<rparr>"
  by (simp_all add: results_def split: prod.splits)

section \<open>The properties\<close>

text \<open>
  Claim C1. For every state vector and every wrapper constructed with inner function
  \<open>f\<close> and keyword arguments \<open>kw\<close> (with any problem type that construction accepts, or
  none), \<^verbatim>\<open>evaluate(state)\<close> returns exactly \<open>f state kw\<close>, the value the inner function
  returns.
\<close>

theorem evaluate_returns_inner:
  "CustomFitness f pt kw = Inr w \<Longrightarrow> fst (evaluate w state) = Inr (f state kw)"
  by (drule CustomFitness_Inr) (simp add: evaluate_def)

theorem evaluate_returns_inner_witness:
  "CustomFitness cust_fn None [''c'' \<mapsto> 10]
     = Inr \<lparr>fitness_fn = Some cust_fn, problem_type = Some ''continuous'',
            kwargs = Some [''c'' \<mapsto> 10]\<rparr>
   \<and> fst (evaluate \<lparr>fitness_fn = Some cust_fn, problem_type = Some ''continuous'',
                    kwargs = Some [''c'' \<mapsto> 10]\<rparr> [1, 2, 3, 4, 5]) = Inr (Some 150)"
proof -
  have c: "CustomFitness cust_fn None [''c'' \<mapsto> 10]
     = Inr \<lparr>fitness_fn = Some cust_fn, problem_type = Some ''continuous'',
            kwargs = Some [''c'' \<mapsto> (10::int)]\<rparr>"
    by (simp add: CustomFitness_def CustomFitness_init_def new_object_def)
  from evaluate_returns_inner [OF c, of "[1, 2, 3, 4, 5]"] c show ?thesis
    by (simp add: cust_fn_def)
qed

text \<open>
  Claim C2. Construction with an explicit problem-type label raises an exception if and
  only if the label is not one of \<^verbatim>\<open>'discrete'\<close>, \<^verbatim>\<open>'continuous'\<close>, \<^verbatim>\<open>'tsp'\<close>,
  \<^verbatim>\<open>'either'\<close>; for every label of that set construction succeeds. The same holds of
  \<^verbatim>\<open>__init__\<close> run on any object. (The parameter is documented as a string, and is one
  here.)
\<close>

theorem init_raises_iff:
  "((\<exists>e. CustomFitness f (Some p) kw = Inl e)
      \<longleftrightarrow> p \<notin> {''discrete'', ''continuous'', ''tsp'', ''either''})
   \<and> (p \<in> {''discrete'', ''continuous'', ''tsp'', ''either''}
      \<longrightarrow> (\<exists>w. CustomFitness f (Some p) kw = Inr w))
   \<and> ((\<exists>e. fst (CustomFitness_init self f (Some p) kw) = Some e)
      \<longleftrightarrow> p \<notin> {''discrete'', ''continuous'', ''tsp'', ''either''})"
  by (simp add: CustomFitness_def CustomFitness_init_def)

theorem init_raises_iff_witness:
  "(\<exists>e. CustomFitness cust_fn (Some ''binary'') [''c'' \<mapsto> 10] = Inl e)
   \<and> (\<exists>w. CustomFitness cust_fn (Some ''tsp'') [''c'' \<mapsto> 10] = Inr w)"
  using init_raises_iff [of cust_fn "''binary''" "[''c'' \<mapsto> 10]"]
        init_raises_iff [of cust_fn "''tsp''" "[''c'' \<mapsto> 10]"]
  by simp

text \<open>
  Claim C3. For every weight vector that holds the parameters of the network (at least
  \<open>total_weights\<close> entries, as every state of the problem does),
  \<^verbatim>\<open>fitness_function(weights)\<close> installs these entries in a new model, compiles it with
  the loss \<^verbatim>\<open>categorical_crossentropy\<close>, and returns the first component (the loss, not
  the accuracy) of the library's evaluation of that model on \<^verbatim>\<open>X_train, y_train\<close> (not the
  test split). The optimisation problem is built with \<^verbatim>\<open>maximize=False\<close>, and its fitness
  wrapper evaluates a state to exactly this training loss.
\<close>

theorem fitness_is_training_loss:
  assumes "total_weights g \<le> length weights"
  shows "\<exists>m. fitness_function_loop weights (build_model g) 0 = Inr (m, total_weights g)
           \<and> concat (map layer_params m) = take (total_weights g) weights
           \<and> loss (compile m) = ''categorical_crossentropy''
           \<and> fitness_function keras_evaluate g weights
               = Inr (fst (keras_evaluate (compile m) (X_train g) (y_train g)))
           \<and> (\<exists>p. problem keras_evaluate g = Inr p
                  \<and> opt_maximize p = False
                  \<and> fst (evaluate (opt_fitness_fn p) weights)
                      = Inr (Inr (fst (keras_evaluate (compile m) (X_train g) (y_train g)))))"
proof -
  let ?m = "sliced_layers weights (build_model g) 0"
  have l: "fitness_function_loop weights (build_model g) 0 = Inr (?m, total_weights g)"
    using assms by (rule build_model_loop)
  have f: "fitness_function keras_evaluate g weights
             = Inr (fst (keras_evaluate (compile ?m) (X_train g) (y_train g)))"
    by (simp add: fitness_function_def l case_prod_beta)
  have c: "loss (compile ?m) = ''categorical_crossentropy''"
    by (simp add: compile_def)
  have p: "fst (evaluate \<lparr>fitness_fn = Some (\<lambda>weights _. fitness_function keras_evaluate g weights),
                          problem_type = Some ''continuous'', kwargs = Some ()\<rparr> weights)
             = Inr (Inr (fst (keras_evaluate (compile ?m) (X_train g) (y_train g))))"
    by (simp add: evaluate_def f)
  from l f c p concat_build_model [of weights g] show ?thesis
    by (simp add: problem_eq)
qed

theorem fitness_is_training_loss_witness:
  "total_weights iris \<le> length (replicate 193 (0::int))
   \<and> fitness_function count_evaluate iris (replicate 193 (0::int)) = Inr 193"
proof -
  have h: "total_weights iris \<le> length (replicate 193 (0::int))"
    by (simp add: iris_total)
  from fitness_is_training_loss [OF h, of count_evaluate]
  obtain m where c: "concat (map layer_params m) = take (total_weights iris) (replicate 193 (0::int))"
    and f: "fitness_function count_evaluate iris (replicate 193 (0::int))
              = Inr (fst (count_evaluate (compile m) (X_train iris) (y_train iris)))"
    by blast
  have "fst (count_evaluate (compile m) (X_train iris) (y_train iris)) = 193"
    by (simp add: count_evaluate_def compile_def c iris_total)
  with f h show ?thesis by simp
qed

text \<open>
  Claim C4. On the network \<open>model = build_model g\<close> and a state vector with at least
  \<open>total_weights g\<close> entries the loop of \<^verbatim>\<open>fitness_function\<close> succeeds, ends with
  \<^verbatim>\<open>start = total_weights\<close>, and gives layer \<open>i\<close> the slice
  \<open>[o\<^sub>i, o\<^sub>i + prod(weight shape))\<close> reshaped to the weight shape and the slice
  \<open>[o\<^sub>i + prod(weight shape), o\<^sub>i\<^sub>+\<^sub>1)\<close> as its biases, where \<open>o\<^sub>i\<close> is the parameter count
  of the layers before \<open>i\<close>, \<open>o\<^sub>0 = 0\<close>,
  \<open>o\<^sub>i\<^sub>+\<^sub>1 = o\<^sub>i + prod(weight shape) + prod(bias shape)\<close> and the last offset is
  \<open>total_weights\<close>. The slices are therefore consecutive, pairwise disjoint, and cover
  exactly the indices below \<open>total_weights\<close>: laid end to end in network order they are
  the first \<open>total_weights\<close> entries of the state vector. The loop of the test cell is the
  same function.
\<close>

theorem reconstruction_slices:
  fixes model :: "'a dense list"
  assumes "model = build_model g" and "total_weights g \<le> length weights"
  shows "\<exists>model'. fitness_function_loop weights model 0 = Inr (model', total_weights g)
           \<and> length model' = length model
           \<and> (\<forall>i < length model.
                 installed (model' ! i) = Some
                   (\<lparr>shape = weights_shape (model ! i),
                     data = slice weights (n_params (take i model))
                              (n_params (take i model) + np_prod (weights_shape (model ! i)))\<rparr>,
                    \<lparr>shape = biases_shape (model ! i),
                     data = slice weights
                              (n_params (take i model) + np_prod (weights_shape (model ! i)))
                              (n_params (take (Suc i) model))\<rparr>)
                 \<and> n_params (take (Suc i) model)
                     = n_params (take i model) + np_prod (weights_shape (model ! i))
                         + np_prod (biases_shape (model ! i))
                 \<and> n_params (take (Suc i) model) \<le> total_weights g)
           \<and> n_params (take 0 model) = 0
           \<and> n_params (take (length model) model) = total_weights g
           \<and> concat (map layer_params model') = take (total_weights g) weights
           \<and> test_accuracies_loop weights model 0 = fitness_function_loop weights model 0"
proof -
  let ?m = "sliced_layers weights model 0"
  have tw: "n_params model = total_weights g"
    using assms(1) by (simp add: total_weights_eq)
  have l: "fitness_function_loop weights model 0 = Inr (?m, total_weights g)"
    using loop_sliced [of 0 model weights] assms(2) by (simp add: tw)
  have n: "\<forall>i < length model.
                 installed (?m ! i) = Some
                   (\<lparr>shape = weights_shape (model ! i),
                     data = slice weights (n_params (take i model))
                              (n_params (take i model) + np_prod (weights_shape (model ! i)))\<rparr>,
                    \<lparr>shape = biases_shape (model ! i),
                     data = slice weights
                              (n_params (take i model) + np_prod (weights_shape (model ! i)))
                              (n_params (take (Suc i) model))\<rparr>)"
    using nth_sliced_layers [of _ model weights 0] by simp
  have s: "\<forall>i < length model. n_params (take (Suc i) model)
                     = n_params (take i model) + np_prod (weights_shape (model ! i))
                         + np_prod (biases_shape (model ! i))"
    using n_params_take_Suc by blast
  have b: "\<forall>i < length model. n_params (take (Suc i) model) \<le> total_weights g"
    using n_params_take_le [of _ model] by (simp add: tw)
  have e: "n_params (take 0 model) = 0" "n_params (take (length model) model) = total_weights g"
    by (simp_all add: n_params_Nil tw)
  have c: "concat (map layer_params ?m) = take (total_weights g) weights"
    using concat_sliced_layers [of weights model 0] by (simp add: slice_def tw)
  from l n s b c e show ?thesis
    by (simp add: length_sliced_layers test_loop_eq)
qed

theorem reconstruction_slices_witness:
  "total_weights iris \<le> length (replicate 193 (0::int))
   \<and> (\<exists>model'. fitness_function_loop (replicate 193 (0::int)) (build_model iris) 0
                   = Inr (model', 193)
         \<and> length model' = 3
         \<and> installed (model' ! 2)
             = Some (\<lparr>shape = [10, 3], data = slice (replicate 193 0) 160 190\<rparr>,
                     \<lparr>shape = [3], data = slice (replicate 193 0) 190 193\<rparr>)
         \<and> concat (map layer_params model') = take 193 (replicate 193 0))"
proof -
  let ?model = "build_model iris :: int dense list"
  let ?ws = "replicate 193 (0::int)"
  have h: "total_weights iris \<le> length ?ws"
    by (simp add: iris_total)
  have p2: "n_params (take 2 ?model) = 160"
    by (simp add: iris_model n_params_def Dense_def np_prod_def)
  have p3: "n_params (take (Suc 2) ?model) = 193"
    by (simp add: iris_model n_params_def Dense_def np_prod_def)
  have w: "weights_shape (?model ! 2) = [10, 3]"
    and b: "biases_shape (?model ! 2) = [3]"
    and n: "length ?model = 3"
    by (simp_all add: iris_model Dense_def)
  from reconstruction_slices [OF refl h]
  obtain model' where l: "fitness_function_loop ?ws ?model 0 = Inr (model', total_weights iris)"
    and len: "length model' = length ?model"
    and q: "\<forall>i < length ?model.
                 installed (model' ! i) = Some
                   (\<lparr>shape = weights_shape (?model ! i),
                     data = slice ?ws (n_params (take i ?model))
                              (n_params (take i ?model) + np_prod (weights_shape (?model ! i)))\<rparr>,
                    \<lparr>shape = biases_shape (?model ! i),
                     data = slice ?ws
                              (n_params (take i ?model) + np_prod (weights_shape (?model ! i)))
                              (n_params (take (Suc i) ?model))\<rparr>)
                 \<and> n_params (take (Suc i) ?model)
                     = n_params (take i ?model) + np_prod (weights_shape (?model ! i))
                         + np_prod (biases_shape (?model ! i))
                 \<and> n_params (take (Suc i) ?model) \<le> total_weights iris"
    and c: "concat (map layer_params model') = take (total_weights iris) ?ws"
    by (elim exE conjE) (rule that)
  have "(2::nat) < length ?model"
    by (simp add: n)
  with q have "installed (model' ! 2) = Some
                   (\<lparr>shape = weights_shape (?model ! 2),
                     data = slice ?ws (n_params (take 2 ?model))
                              (n_params (take 2 ?model) + np_prod (weights_shape (?model ! 2)))\<rparr>,
                    \<lparr>shape = biases_shape (?model ! 2),
                     data = slice ?ws
                              (n_params (take 2 ?model) + np_prod (weights_shape (?model ! 2)))
                              (n_params (take (Suc 2) ?model))\<rparr>)"
    by blast
  then have i2: "installed (model' ! 2)
             = Some (\<lparr>shape = [10, 3], data = slice ?ws 160 190\<rparr>,
                     \<lparr>shape = [3], data = slice ?ws 190 193\<rparr>)"
    unfolding p2 p3 w b by (simp add: np_prod_def)
  have l': "fitness_function_loop ?ws ?model 0 = Inr (model', 193)"
    using l unfolding iris_total .
  have len': "length model' = 3"
    using len unfolding n .
  have c': "concat (map layer_params model') = take 193 ?ws"
    using c unfolding iris_total .
  from l' len' i2 c' have "\<exists>model'. fitness_function_loop ?ws ?model 0 = Inr (model', 193)
         \<and> length model' = 3
         \<and> installed (model' ! 2)
             = Some (\<lparr>shape = [10, 3], data = slice ?ws 160 190\<rparr>,
                     \<lparr>shape = [3], data = slice ?ws 190 193\<rparr>)
         \<and> concat (map layer_params model') = take 193 ?ws"
    by (intro exI [of _ model'] conjI)
  with h show ?thesis by (rule conjI)
qed

text \<open>
  Claim C5. \<^verbatim>\<open>total_weights\<close> is the parameter count of the network: the sum over its
  three layers of the size of the weight matrix and the size of the bias vector; for the
  architecture 4 \<rightarrow> 10 \<rightarrow> 10 \<rightarrow> 3 that is \<open>(4*10+10) + (10*10+10) + (10*3+3) = 193\<close>. The
  optimisation problem is built, and its \<^verbatim>\<open>length\<close> is \<^verbatim>\<open>total_weights\<close>.
\<close>

theorem total_weights_is_parameter_count:
  "total_weights g
     = (X_train_shape1 g * 10 + 10) + (10 * 10 + 10) + (10 * y_train_shape1 g + y_train_shape1 g)
   \<and> total_weights g = n_params (build_model g :: 'a dense list)
   \<and> (X_train_shape1 g = 4 \<and> y_train_shape1 g = 3 \<longrightarrow>
        total_weights g = (4 * 10 + 10) + (10 * 10 + 10) + (10 * 3 + 3) \<and> total_weights g = 193)
   \<and> (\<exists>p. problem keras_evaluate g = Inr p \<and> opt_length p = total_weights g)"
proof -
  have t: "total_weights g = 10 * X_train_shape1 g + 120 + 11 * y_train_shape1 g"
    unfolding total_weights_def by (rule n_params_build_model)
  have n: "total_weights g = n_params (build_model g :: 'a dense list)"
    by (simp add: total_weights_eq)
  have p: "\<exists>p. problem keras_evaluate g = Inr p \<and> opt_length p = total_weights g"
    by (simp add: problem_eq)
  have a: "total_weights g
     = (X_train_shape1 g * 10 + 10) + (10 * 10 + 10) + (10 * y_train_shape1 g + y_train_shape1 g)"
    by (simp add: t)
  have i: "X_train_shape1 g = 4 \<and> y_train_shape1 g = 3 \<longrightarrow>
        total_weights g = (4 * 10 + 10) + (10 * 10 + 10) + (10 * 3 + 3) \<and> total_weights g = 193"
    by (simp add: t)
  from a n i p show ?thesis by blast
qed

theorem total_weights_is_parameter_count_witness:
  "X_train_shape1 iris = 4 \<and> y_train_shape1 iris = 3 \<and> total_weights iris = 193
   \<and> (\<exists>p. problem count_evaluate iris = Inr p \<and> opt_length p = 193)"
proof -
  have h: "X_train_shape1 iris = 4 \<and> y_train_shape1 iris = 3"
    by (simp add: iris_def)
  from total_weights_is_parameter_count [of iris count_evaluate] h
  have t: "total_weights iris = 193"
    and p: "\<exists>p. problem count_evaluate iris = Inr p \<and> opt_length p = total_weights iris"
    by blast+
  from p t have "\<exists>p. problem count_evaluate iris = Inr p \<and> opt_length p = 193"
    by simp
  with h t show ?thesis by blast
qed

text \<open>
  Claim C6. When the problem-type label is not supported, \<^verbatim>\<open>__init__\<close> raises before any
  attribute is assigned: it leaves \<open>self\<close> as it found it, and the constructor call gives
  the caller the exception and no wrapper object.
\<close>

theorem rejected_init_is_atomic:
  "p \<notin> {''discrete'', ''continuous'', ''tsp'', ''either''} \<Longrightarrow>
     CustomFitness_init self f (Some p) kw = (Some (Exception ''problem_type does not exist.''), self)
     \<and> CustomFitness f (Some p) kw = Inl (Exception ''problem_type does not exist.'')"
  by (simp add: CustomFitness_def CustomFitness_init_def)

theorem rejected_init_is_atomic_witness:
  "CustomFitness_init new_object cust_fn (Some ''binary'') [''c'' \<mapsto> 10]
     = (Some (Exception ''problem_type does not exist.''),
        \<lparr>fitness_fn = None, problem_type = None, kwargs = None\<rparr>)
   \<and> CustomFitness cust_fn (Some ''binary'') [''c'' \<mapsto> 10]
     = Inl (Exception ''problem_type does not exist.'')"
  using rejected_init_is_atomic [of "''binary''" new_object cust_fn "[''c'' \<mapsto> 10]"]
  by (simp add: new_object_def)

text \<open>
  Claim C7. For each of the three algorithms, in the order RHC, SA, GA, the test cell
  installs the best state stored for that algorithm in a new model from
  \<^verbatim>\<open>build_model()\<close>, takes the second component (the accuracy) of the library's evaluation
  of that model on \<^verbatim>\<open>X_test, y_test\<close>, stores it in \<^verbatim>\<open>test_accuracies\<close> under the
  algorithm's name and prints one line with it. The best states hold the parameters of
  the network (at least \<open>total_weights\<close> entries each).
\<close>

theorem test_accuracy_per_algorithm:
  assumes "total_weights g \<le> length (fst rhc)"
    and "total_weights g \<le> length (fst sa)"
    and "total_weights g \<le> length (fst ga)"
  shows "\<exists>m_rhc m_sa m_ga.
           test_accuracies_loop (fst rhc) (build_model g) 0 = Inr (m_rhc, total_weights g)
         \<and> concat (map layer_params m_rhc) = take (total_weights g) (fst rhc)
         \<and> test_accuracies_loop (fst sa) (build_model g) 0 = Inr (m_sa, total_weights g)
         \<and> concat (map layer_params m_sa) = take (total_weights g) (fst sa)
         \<and> test_accuracies_loop (fst ga) (build_model g) 0 = Inr (m_ga, total_weights g)
         \<and> concat (map layer_params m_ga) = take (total_weights g) (fst ga)
         \<and> test_accuracies keras_evaluate fmt g (results rhc sa ga)
             = Inr ([''RHC'' \<mapsto> snd (keras_evaluate (compile m_rhc) (X_test g) (y_test g)),
                     ''SA'' \<mapsto> snd (keras_evaluate (compile m_sa) (X_test g) (y_test g)),
                     ''GA'' \<mapsto> snd (keras_evaluate (compile m_ga) (X_test g) (y_test g))],
                    [''Test accuracy for RHC: ''
                       @ fmt (snd (keras_evaluate (compile m_rhc) (X_test g) (y_test g))),
                     ''Test accuracy for SA: ''
                       @ fmt (snd (keras_evaluate (compile m_sa) (X_test g) (y_test g))),
                     ''Test accuracy for GA: ''
                       @ fmt (snd (keras_evaluate (compile m_ga) (X_test g) (y_test g)))])"
proof -
  let ?m = "\<lambda>ws. sliced_layers ws (build_model g) 0"
  note runs = test_loop_build_model [OF assms(1)] test_loop_build_model [OF assms(2)]
    test_loop_build_model [OF assms(3)]
  have run: "test_accuracies keras_evaluate fmt g (results rhc sa ga)
             = Inr ([''RHC'' \<mapsto> snd (keras_evaluate (compile (?m (fst rhc))) (X_test g) (y_test g)),
                     ''SA'' \<mapsto> snd (keras_evaluate (compile (?m (fst sa))) (X_test g) (y_test g)),
                     ''GA'' \<mapsto> snd (keras_evaluate (compile (?m (fst ga))) (X_test g) (y_test g))],
                    [''Test accuracy for RHC: ''
                       @ fmt (snd (keras_evaluate (compile (?m (fst rhc))) (X_test g) (y_test g))),
                     ''Test accuracy for SA: ''
                       @ fmt (snd (keras_evaluate (compile (?m (fst sa))) (X_test g) (y_test g))),
                     ''Test accuracy for GA: ''
                       @ fmt (snd (keras_evaluate (compile (?m (fst ga))) (X_test g) (y_test g)))])"
    by (simp add: test_accuracies_def results_lookup runs case_prod_beta Let_def)
  from runs run concat_build_model show ?thesis
    by blast
qed

theorem test_accuracy_per_algorithm_witness:
  "total_weights iris \<le> length (fst (replicate 193 (1::int), 5::nat, ()))
   \<and> total_weights iris \<le> length (fst (replicate 193 (2::int), 6::nat, ()))
   \<and> total_weights iris \<le> length (fst (replicate 193 (3::int), 7::nat, ()))
   \<and> test_accuracies count_evaluate (\<lambda>a. a) iris
        (results (replicate 193 (1::int), 5::nat, ()) (replicate 193 2, 6, ())
           (replicate 193 3, 7, ()))
       = Inr ([''RHC'' \<mapsto> ''X_test,y_test'', ''SA'' \<mapsto> ''X_test,y_test'',
               ''GA'' \<mapsto> ''X_test,y_test''],
              [''Test accuracy for RHC: X_test,y_test'', ''Test accuracy for SA: X_test,y_test'',
               ''Test accuracy for GA: X_test,y_test''])"
proof -
  have h: "total_weights iris \<le> length (fst (replicate 193 (1::int), 5::nat, ()))"
    "total_weights iris \<le> length (fst (replicate 193 (2::int), 6::nat, ()))"
    "total_weights iris \<le> length (fst (replicate 193 (3::int), 7::nat, ()))"
    by (simp_all add: iris_total)
  have t: "X_test iris = ''X_test''" "y_test iris = ''y_test''"
    by (simp_all add: iris_def)
  from test_accuracy_per_algorithm [OF h, of count_evaluate "\<lambda>a. a"]
  obtain m_rhc m_sa m_ga :: "int dense list" where
    "test_accuracies count_evaluate (\<lambda>a. a) iris
        (results (replicate 193 (1::int), 5::nat, ()) (replicate 193 2, 6, ())
           (replicate 193 3, 7, ()))
       = Inr ([''RHC'' \<mapsto> snd (count_evaluate (compile m_rhc) (X_test iris) (y_test iris)),
                     ''SA'' \<mapsto> snd (count_evaluate (compile m_sa) (X_test iris) (y_test iris)),
                     ''GA'' \<mapsto> snd (count_evaluate (compile m_ga) (X_test iris) (y_test iris))],
                    [''Test accuracy for RHC: ''
                       @ snd (count_evaluate (compile m_rhc) (X_test iris) (y_test iris)),
                     ''Test accuracy for SA: ''
                       @ snd (count_evaluate (compile m_sa) (X_test iris) (y_test iris)),
                     ''Test accuracy for GA: ''
                       @ snd (count_evaluate (compile m_ga) (X_test iris) (y_test iris))])"
    by (elim exE conjE) (rule that)
  then have "test_accuracies count_evaluate (\<lambda>a. a) iris
        (results (replicate 193 (1::int), 5::nat, ()) (replicate 193 2, 6, ())
           (replicate 193 3, 7, ()))
       = Inr ([''RHC'' \<mapsto> ''X_test,y_test'', ''SA'' \<mapsto> ''X_test,y_test'',
               ''GA'' \<mapsto> ''X_test,y_test''],
              [''Test accuracy for RHC: X_test,y_test'', ''Test accuracy for SA: X_test,y_test'',
               ''Test accuracy for GA: X_test,y_test''])"
    unfolding t by (simp add: count_evaluate_def)
  with h show ?thesis by (intro conjI)
qed

text \<open>
  Claim C8. A wrapper constructed without a problem type is constructed successfully, and
  \<^verbatim>\<open>get_prob_type()\<close> returns \<^verbatim>\<open>'continuous'\<close> for it, the default of the signature, which
  is not the default \<^verbatim>\<open>'either'\<close> that the class docstring states.
\<close>

theorem default_problem_type:
  "(\<exists>w. CustomFitness f None kw = Inr w)
   \<and> (\<forall>w. CustomFitness f None kw = Inr w \<longrightarrow>
         fst (get_prob_type w) = Inr ''continuous''
         \<and> fst (get_prob_type w) \<noteq> Inr docstring_default)"
  by (auto simp: CustomFitness_def CustomFitness_init_def new_object_def get_prob_type_def
                 docstring_default_def)

theorem default_problem_type_witness:
  "fst (get_prob_type \<lparr>fitness_fn = Some cust_fn, problem_type = Some ''continuous'',
            kwargs = Some [''c'' \<mapsto> 10]\<rparr>) = Inr ''continuous''
   \<and> docstring_default = ''either''"
proof -
  have c: "CustomFitness cust_fn None [''c'' \<mapsto> 10]
     = Inr \<lparr>fitness_fn = Some cust_fn, problem_type = Some ''continuous'',
            kwargs = Some [''c'' \<mapsto> (10::int)]\<rparr>"
    by (simp add: CustomFitness_def CustomFitness_init_def new_object_def)
  from default_problem_type [of cust_fn "[''c'' \<mapsto> 10]"] c show ?thesis
    by (simp add: docstring_default_def)
qed

text \<open>
  Claim C9. For every label \<open>p\<close> among \<^verbatim>\<open>'discrete'\<close>, \<^verbatim>\<open>'continuous'\<close>, \<^verbatim>\<open>'tsp'\<close>,
  \<^verbatim>\<open>'either'\<close> and every inner function, the wrapper constructed with \<open>p\<close> exists and its
  \<^verbatim>\<open>get_prob_type()\<close> returns exactly \<open>p\<close>.
\<close>

theorem prob_type_round_trip:
  "p \<in> {''discrete'', ''continuous'', ''tsp'', ''either''} \<Longrightarrow>
     \<exists>w. CustomFitness f (Some p) kw = Inr w \<and> fst (get_prob_type w) = Inr p"
  by (auto simp: CustomFitness_def CustomFitness_init_def new_object_def get_prob_type_def)

theorem prob_type_round_trip_witness:
  "\<exists>w. CustomFitness cust_fn (Some ''either'') [''c'' \<mapsto> 10] = Inr w
       \<and> fst (get_prob_type w) = Inr ''either''"
  using prob_type_round_trip [of "''either''" cust_fn "[''c'' \<mapsto> 10]"] by simp

text \<open>
  Claim C10. \<^verbatim>\<open>evaluate\<close> leaves the wrapper as it was, whatever the wrapper and the state
  vector: none of \<^verbatim>\<open>fitness_fn\<close>, \<^verbatim>\<open>problem_type\<close>, \<^verbatim>\<open>kwargs\<close> changes. The inner function
  is a function of the state and the keyword arguments, so a second call on the same state
  returns the value of the first.
\<close>

theorem evaluate_frame:
  "snd (evaluate w state) = w
   \<and> fitness_fn (snd (evaluate w state)) = fitness_fn w
   \<and> problem_type (snd (evaluate w state)) = problem_type w
   \<and> kwargs (snd (evaluate w state)) = kwargs w
   \<and> fst (evaluate (snd (evaluate w state)) state) = fst (evaluate w state)"
  by (simp add: evaluate_def split: option.splits)

theorem evaluate_frame_witness:
  "snd (evaluate \<lparr>fitness_fn = Some cust_fn, problem_type = Some ''continuous'',
                  kwargs = Some [''c'' \<mapsto> 10]\<rparr> [1, 2, 3, 4, 5])
     = \<lparr>fitness_fn = Some cust_fn, problem_type = Some ''continuous'',
        kwargs = Some [''c'' \<mapsto> 10]\<rparr>"
  using evaluate_frame [of "\<lparr>fitness_fn = Some cust_fn, problem_type = Some ''continuous'',
                  kwargs = Some [''c'' \<mapsto> 10]\<rparr>" "[1, 2, 3, 4, 5]"]
  by simp

end
